theory Spec2Isabelle
  imports Main "HOL-Library.Option_ord"
begin

section \<open>Data model (shared/schema.ts)\<close>

text \<open>
  The relational store is a record of tables, each table a list of rows in insertion
  order. User ids are the opaque strings of the identity provider. The keys that the
  database generates with \<^verbatim>\<open>gen_random_uuid()\<close> are drawn from a counter kept in the
  store, so that they are fresh; nothing below depends on their values. Timestamps are
  the millisecond values of a JavaScript \<^verbatim>\<open>Date\<close>; a nullable column is an \<open>option\<close>.
  The varchar columns that only ever hold the members of a \<^verbatim>\<open>z.enum\<close> are datatypes.
  A column keeps its name behind a letter for its table (\<open>cId\<close> is \<^verbatim>\<open>chats.id\<close>,
  \<open>pRole\<close> is \<^verbatim>\<open>chatParticipants.role\<close>), since the tables share column names.
\<close>

type_synonym userIdent = string
type_synonym uuid = nat
type_synonym timestamp = int

datatype chatType = Private | Group | Channel
datatype role = Admin | Member
datatype messageType = TextMsg | ImageMsg | FileMsg | VoiceMsg
datatype friendStatus = Pending | Accepted | Rejected

record userProfile =
  uUserId :: userIdent
  uTag :: string
  uDisplayName :: "string option"
  uBio :: "string option"
  uLanguage :: "string option"
  uLastSeen :: "timestamp option"
  uIsOnline :: "bool option"

record chat =
  cId :: uuid
  cType :: chatType
  cName :: "string option"
  cDescription :: "string option"
  cIconUrl :: "string option"
  cCreatedBy :: "userIdent option"
  cCreatedAt :: "timestamp option"
  cUpdatedAt :: "timestamp option"

record chatParticipant =
  pId :: uuid
  pChatId :: uuid
  pUserId :: userIdent
  pRole :: role
  pJoinedAt :: "timestamp option"
  pLastRead :: "timestamp option"

record message =
  mId :: uuid
  mChatId :: uuid
  mSenderId :: userIdent
  mContent :: string
  mType :: messageType
  mAttachmentUrl :: "string option"
  mAttachmentName :: "string option"
  mAttachmentSize :: "int option"
  mCreatedAt :: "timestamp option"
  mIsRead :: "bool option"

record friendship =
  fId :: uuid
  fUserId :: userIdent
  fFriendId :: userIdent
  fStatus :: friendStatus
  fCreatedAt :: "timestamp option"

text \<open>The read-time joins: a row spread into an object with one more property.\<close>

record participantWithProfile = chatParticipant +
  profile :: "userProfile option"

record messageWithSender = message +
  sender :: "userProfile option"

record chatWithDetails = chat +
  participants :: "participantWithProfile list"
  lastMessage :: "messageWithSender option"
  unreadCount :: nat

record db =
  userProfiles :: "userProfile list"
  chats :: "chat list"
  chatParticipants :: "chatParticipant list"
  messages :: "message list"
  friendships :: "friendship list"
  nextId :: uuid

definition emptyDb :: db where
  "emptyDb = \<lparr>userProfiles = [], chats = [], chatParticipants = [], messages = [],
     friendships = [], nextId = 0\<rparr>"

section \<open>DatabaseStorage (server/storage.ts)\<close>

text \<open>
  A destructuring \<^verbatim>\<open>const [row] = await db.select()...\<close> takes the first row of the
  result, or \<^verbatim>\<open>undefined\<close>: \<^const>\<open>find\<close> on the table.
\<close>

definition getProfile :: "db \<Rightarrow> userIdent \<Rightarrow> userProfile option" where
  "getProfile s userId = find (\<lambda>u. uUserId u = userId) (userProfiles s)"

definition getChat :: "db \<Rightarrow> uuid \<Rightarrow> chat option" where
  "getChat s chatId = find (\<lambda>c. cId c = chatId) (chats s)"

definition getChatParticipant :: "db \<Rightarrow> uuid \<Rightarrow> userIdent \<Rightarrow> chatParticipant option" where
  "getChatParticipant s chatId userId =
     find (\<lambda>p. pChatId p = chatId \<and> pUserId p = userId) (chatParticipants s)"

definition getChatParticipants :: "db \<Rightarrow> uuid \<Rightarrow> participantWithProfile list" where
  "getChatParticipants s chatId =
     map (\<lambda>p. chatParticipant.extend p
                 (participantWithProfile.fields (getProfile s (pUserId p))))
       (filter (\<lambda>p. pChatId p = chatId) (chatParticipants s))"

text \<open>
  \<^verbatim>\<open>orderBy(desc(messages.createdAt))\<close>: PostgreSQL puts NULL first in a descending
  order; rows with equal keys stay in table order. With \<open>None < Some t\<close> this is the
  stable ascending sort by the negated timestamp.
\<close>

definition descCreatedAt :: "message \<Rightarrow> timestamp option" where
  "descCreatedAt m = map_option uminus (mCreatedAt m)"

definition getMessages :: "db \<Rightarrow> uuid \<Rightarrow> nat \<Rightarrow> messageWithSender list" where
  "getMessages s chatId limit =
     rev (map (\<lambda>m. message.extend m (messageWithSender.fields (getProfile s (mSenderId m))))
       (take limit (sort_key descCreatedAt
          (filter (\<lambda>m. mChatId m = chatId) (messages s)))))"

definition getChatWithDetails :: "db \<Rightarrow> uuid \<Rightarrow> chatWithDetails option" where
  "getChatWithDetails s chatId =
     (case getChat s chatId of
        None \<Rightarrow> None
      | Some c \<Rightarrow>
          Some (chat.extend c (chatWithDetails.fields
            (getChatParticipants s chatId)
            (case getMessages s chatId 1 of [] \<Rightarrow> None | m # _ \<Rightarrow> Some m)
            0)))"

text \<open>
  The unread query of \<^verbatim>\<open>getUserChats\<close>: \<^verbatim>\<open>count(*)\<close> over the messages of the chat
  not sent by the user and, when the cursor is set, created after it. A comparison with
  a NULL \<^verbatim>\<open>created_at\<close> is not true in SQL, so such a row is not counted then.
\<close>

definition unreadWhere :: "uuid \<Rightarrow> userIdent \<Rightarrow> timestamp option \<Rightarrow> message \<Rightarrow> bool" where
  "unreadWhere chatId userId lastRead m \<longleftrightarrow>
     mChatId m = chatId \<and> mSenderId m \<noteq> userId \<and>
     (case lastRead of
        Some lr \<Rightarrow> (case mCreatedAt m of Some t \<Rightarrow> lr < t | None \<Rightarrow> False)
      | None \<Rightarrow> True)"

text \<open>
  The sort key of the chat list: \<^verbatim>\<open>a.lastMessage?.createdAt || a.createdAt\<close>, read
  through \<^verbatim>\<open>new Date(..).getTime()\<close>, which is 0 on \<^verbatim>\<open>null\<close>.
\<close>

definition activityTime :: "chatWithDetails \<Rightarrow> timestamp" where
  "activityTime a =
     (case (case lastMessage a of
              Some m \<Rightarrow> (case mCreatedAt m of Some t \<Rightarrow> Some t | None \<Rightarrow> cCreatedAt a)
            | None \<Rightarrow> cCreatedAt a) of
        Some t \<Rightarrow> t
      | None \<Rightarrow> 0)"

text \<open>
  \<^verbatim>\<open>getUserChats\<close>: \<open>userChatEntry\<close> is the callback mapped over the chat ids
  of the user's participations; entries of chats that no longer exist are dropped.
  \<^verbatim>\<open>Array.prototype.sort\<close> is stable; the comparator \<^verbatim>\<open>bTime - aTime\<close> orders by
  descending time, which is the stable ascending sort by the negated time.
\<close>

definition userChatEntry ::
  "db \<Rightarrow> userIdent \<Rightarrow> chatParticipant list \<Rightarrow> uuid \<Rightarrow> chatWithDetails option" where
  "userChatEntry s userId userParticipations chatId =
     (case getChatWithDetails s chatId of
        None \<Rightarrow> None
      | Some chatWithDetails \<Rightarrow>
          let participation = find (\<lambda>p. pChatId p = chatId) userParticipations;
              lastRead = (case participation of None \<Rightarrow> None | Some p \<Rightarrow> pLastRead p);
              unreadMessages =
                length (filter (unreadWhere chatId userId lastRead) (messages s))
          in Some (chatWithDetails\<lparr>unreadCount := unreadMessages\<rparr>))"

definition getUserChats :: "db \<Rightarrow> userIdent \<Rightarrow> chatWithDetails list" where
  "getUserChats s userId =
     (let userParticipations = filter (\<lambda>p. pUserId p = userId) (chatParticipants s);
          chatIds = map pChatId userParticipations
      in if length chatIds = 0 then []
         else
           let userChats = map (userChatEntry s userId userParticipations) chatIds
           in sort_key (\<lambda>c. - activityTime c) (List.map_filter (\<lambda>c. c) userChats))"

text \<open>
  Inserts take the generated columns from the store: the key from the counter and
  \<^verbatim>\<open>defaultNow()\<close> from the time of the request. The tables declare no foreign key
  and no uniqueness constraint besides their primary keys, and the keys are fresh, so no
  insert fails on a constraint. A statement throws on a value that its column cannot
  hold: a text with the character U+0000, which PostgreSQL refuses in \<^verbatim>\<open>text\<close> and
  \<^verbatim>\<open>varchar\<close>, or a number outside the 32-bit range of an \<^verbatim>\<open>integer\<close> column.
  \<^verbatim>\<open>createMessage\<close> and \<^verbatim>\<open>updateChat\<close>, whose values are free texts and numbers of
  a request body, return that failure as a value; the ids and names that the other
  inserts store are taken to be texts the store holds.
\<close>

datatype storageError = InvalidValue

definition storableText :: "string \<Rightarrow> bool" where
  "storableText x \<longleftrightarrow> CHR 0x00 \<notin> set x"

definition storableTextOpt :: "string option \<Rightarrow> bool" where
  "storableTextOpt x \<longleftrightarrow> (case x of None \<Rightarrow> True | Some v \<Rightarrow> storableText v)"

definition storableInteger :: "int option \<Rightarrow> bool" where
  "storableInteger x \<longleftrightarrow>
     (case x of None \<Rightarrow> True | Some n \<Rightarrow> - 2147483648 \<le> n \<and> n \<le> 2147483647)"

definition createChat ::
  "db \<Rightarrow> timestamp \<Rightarrow> chatType \<Rightarrow> string option \<Rightarrow> string option \<Rightarrow> userIdent option
     \<Rightarrow> chat \<times> db" where
  "createChat s now ty name description createdBy =
     (let created = \<lparr>cId = nextId s, cType = ty, cName = name, cDescription = description,
            cIconUrl = None, cCreatedBy = createdBy, cCreatedAt = Some now,
            cUpdatedAt = Some now\<rparr>
      in (created, s\<lparr>chats := chats s @ [created], nextId := Suc (nextId s)\<rparr>))"

definition deleteChat :: "db \<Rightarrow> uuid \<Rightarrow> db" where
  "deleteChat s chatId =
     s\<lparr>messages := filter (\<lambda>m. mChatId m \<noteq> chatId) (messages s),
       chatParticipants := filter (\<lambda>p. pChatId p \<noteq> chatId) (chatParticipants s),
       chats := filter (\<lambda>c. cId c \<noteq> chatId) (chats s)\<rparr>"

fun privateChatLoop :: "db \<Rightarrow> userIdent \<Rightarrow> chatParticipant list \<Rightarrow> chat option" where
  "privateChatLoop s userId2 [] = None"
| "privateChatLoop s userId2 (participation # rest) =
     (case getChat s (pChatId participation) of
        None \<Rightarrow> privateChatLoop s userId2 rest
      | Some c \<Rightarrow>
          if cType c \<noteq> Private then privateChatLoop s userId2 rest
          else
            let ps = getChatParticipants s (pChatId participation)
            in if length ps = 2 \<and> list_ex (\<lambda>p. pUserId p = userId2) ps then Some c
               else privateChatLoop s userId2 rest)"

definition getPrivateChatBetweenUsers :: "db \<Rightarrow> userIdent \<Rightarrow> userIdent \<Rightarrow> chat option" where
  "getPrivateChatBetweenUsers s userId1 userId2 =
     privateChatLoop s userId2 (filter (\<lambda>p. pUserId p = userId1) (chatParticipants s))"

text \<open>
  \<^verbatim>\<open>addChatParticipant\<close> is a bare insert: the role defaults to \<^verbatim>\<open>'member'\<close>, the
  read cursor to NULL. It does not look for an existing row of the pair.
\<close>

definition addChatParticipant ::
  "db \<Rightarrow> timestamp \<Rightarrow> uuid \<Rightarrow> userIdent \<Rightarrow> role option \<Rightarrow> chatParticipant \<times> db" where
  "addChatParticipant s now chatId userId r =
     (let created = \<lparr>pId = nextId s, pChatId = chatId, pUserId = userId,
            pRole = (case r of None \<Rightarrow> Member | Some x \<Rightarrow> x),
            pJoinedAt = Some now, pLastRead = None\<rparr>
      in (created, s\<lparr>chatParticipants := chatParticipants s @ [created],
                      nextId := Suc (nextId s)\<rparr>))"

definition removeChatParticipant :: "db \<Rightarrow> uuid \<Rightarrow> userIdent \<Rightarrow> db" where
  "removeChatParticipant s chatId userId =
     s\<lparr>chatParticipants :=
         filter (\<lambda>p. \<not> (pChatId p = chatId \<and> pUserId p = userId)) (chatParticipants s)\<rparr>"

definition updateParticipantRole ::
  "db \<Rightarrow> uuid \<Rightarrow> userIdent \<Rightarrow> role \<Rightarrow> chatParticipant option \<times> db" where
  "updateParticipantRole s chatId userId r =
     (let s' = s\<lparr>chatParticipants :=
                 map (\<lambda>p. if pChatId p = chatId \<and> pUserId p = userId then p\<lparr>pRole := r\<rparr> else p)
                   (chatParticipants s)\<rparr>
      in (find (\<lambda>p. pChatId p = chatId \<and> pUserId p = userId) (chatParticipants s'), s'))"

text \<open>
  \<^verbatim>\<open>updateChat\<close>: \<^verbatim>\<open>set({ ...data, updatedAt: new Date() })\<close>, where a property that
  is \<^verbatim>\<open>undefined\<close> leaves its column as it is.
\<close>

definition updateChat ::
  "db \<Rightarrow> timestamp \<Rightarrow> uuid \<Rightarrow> string option \<Rightarrow> string option \<Rightarrow> string option
     \<Rightarrow> storageError + chat option \<times> db" where
  "updateChat s now chatId name description iconUrl =
     (if \<not> (storableTextOpt name \<and> storableTextOpt description \<and> storableTextOpt iconUrl)
      then Inl InvalidValue
      else
        let s' = s\<lparr>chats :=
                    map (\<lambda>c. if cId c = chatId
                              then c\<lparr>cName := (case name of None \<Rightarrow> cName c | Some v \<Rightarrow> Some v),
                                     cDescription := (case description of
                                                        None \<Rightarrow> cDescription c | Some v \<Rightarrow> Some v),
                                     cIconUrl := (case iconUrl of
                                                    None \<Rightarrow> cIconUrl c | Some v \<Rightarrow> Some v),
                                     cUpdatedAt := Some now\<rparr>
                              else c) (chats s)\<rparr>
        in Inr (find (\<lambda>c. cId c = chatId) (chats s'), s'))"

text \<open>
  \<^verbatim>\<open>createMessage\<close>: the insert, then the update of the chat's \<^verbatim>\<open>updatedAt\<close>. When
  the insert throws, nothing is stored.
\<close>

definition createMessage ::
  "db \<Rightarrow> timestamp \<Rightarrow> uuid \<Rightarrow> userIdent \<Rightarrow> string \<Rightarrow> messageType \<Rightarrow> string option
     \<Rightarrow> string option \<Rightarrow> int option \<Rightarrow> storageError + message \<times> db" where
  "createMessage s now chatId senderId content ty url name sz =
     (if \<not> (storableText senderId \<and> storableText content \<and> storableTextOpt url \<and>
             storableTextOpt name \<and> storableInteger sz)
      then Inl InvalidValue
      else
        let created = \<lparr>mId = nextId s, mChatId = chatId, mSenderId = senderId,
              mContent = content, mType = ty, mAttachmentUrl = url, mAttachmentName = name,
              mAttachmentSize = sz, mCreatedAt = Some now, mIsRead = Some False\<rparr>
        in Inr (created,
             s\<lparr>messages := messages s @ [created],
               chats := map (\<lambda>c. if cId c = chatId then c\<lparr>cUpdatedAt := Some now\<rparr> else c)
                          (chats s),
               nextId := Suc (nextId s)\<rparr>))"

definition markMessagesAsRead :: "db \<Rightarrow> timestamp \<Rightarrow> uuid \<Rightarrow> userIdent \<Rightarrow> db" where
  "markMessagesAsRead s now chatId userId =
     s\<lparr>chatParticipants :=
         map (\<lambda>p. if pChatId p = chatId \<and> pUserId p = userId
                   then p\<lparr>pLastRead := Some now\<rparr> else p)
           (chatParticipants s)\<rparr>"

definition getFriendship :: "db \<Rightarrow> userIdent \<Rightarrow> userIdent \<Rightarrow> friendship option" where
  "getFriendship s userId friendId =
     find (\<lambda>f. (fUserId f = userId \<and> fFriendId f = friendId) \<or>
                (fUserId f = friendId \<and> fFriendId f = userId)) (friendships s)"

definition createFriendship ::
  "db \<Rightarrow> timestamp \<Rightarrow> userIdent \<Rightarrow> userIdent \<Rightarrow> friendStatus \<Rightarrow> friendship \<times> db" where
  "createFriendship s now userId friendId st =
     (let created = \<lparr>fId = nextId s, fUserId = userId, fFriendId = friendId, fStatus = st,
            fCreatedAt = Some now\<rparr>
      in (created, s\<lparr>friendships := friendships s @ [created], nextId := Suc (nextId s)\<rparr>))"

definition updateFriendshipStatus ::
  "db \<Rightarrow> uuid \<Rightarrow> friendStatus \<Rightarrow> friendship option \<times> db" where
  "updateFriendshipStatus s ident st =
     (let s' = s\<lparr>friendships :=
                 map (\<lambda>f. if fId f = ident then f\<lparr>fStatus := st\<rparr> else f) (friendships s)\<rparr>
      in (find (\<lambda>f. fId f = ident) (friendships s'), s'))"

section \<open>Request handlers (server/routes.ts)\<close>

text \<open>
  A handler takes the store, the time of the request, the authenticated caller
  (\<^verbatim>\<open>req.user.claims.sub\<close>), the route parameters and the JSON body, and returns the
  response with the store it leaves. A response is either the JSON body sent with
  status 200 or an error status with its message. The \<^verbatim>\<open>catch\<close> branch (status 500)
  is the answer when a storage call throws.
\<close>

datatype 'a response = Json 'a | Failure nat string

fun statusOf :: "'a response \<Rightarrow> nat" where
  "statusOf (Json _) = 200"
| "statusOf (Failure code _) = code"

subsection \<open>Validation schemas\<close>

definition parseChatType :: "string option \<Rightarrow> chatType option" where
  "parseChatType t =
     (case t of
        None \<Rightarrow> Some Group
      | Some x \<Rightarrow> if x = ''group'' then Some Group
                  else if x = ''channel'' then Some Channel else None)"

definition parseMessageType :: "string option \<Rightarrow> messageType option" where
  "parseMessageType t =
     (case t of
        None \<Rightarrow> Some TextMsg
      | Some x \<Rightarrow> if x = ''text'' then Some TextMsg
                  else if x = ''image'' then Some ImageMsg
                  else if x = ''file'' then Some FileMsg
                  else if x = ''voice'' then Some VoiceMsg else None)"

definition parseRole :: "string \<Rightarrow> role option" where
  "parseRole x = (if x = ''admin'' then Some Admin
                  else if x = ''member'' then Some Member else None)"

definition parseFriendStatus :: "string \<Rightarrow> friendStatus option" where
  "parseFriendStatus x = (if x = ''accepted'' then Some Accepted
                          else if x = ''rejected'' then Some Rejected else None)"

record createGroupBody =
  gName :: string
  gDescription :: "string option"
  gMemberIds :: "userIdent list option"
  gType :: "string option"

text \<open>
  \<^verbatim>\<open>safeParse\<close> of a body: \<open>None\<close> when it fails, else the parsed value of the enum
  field, with its default.
\<close>

definition createGroupSchema :: "createGroupBody \<Rightarrow> chatType option" where
  "createGroupSchema b =
     (if 1 \<le> length (gName b) \<and> length (gName b) \<le> 100 \<and>
         (case gDescription b of None \<Rightarrow> True | Some d \<Rightarrow> length d \<le> 500)
      then parseChatType (gType b) else None)"

text \<open>
  The attachment size is a JSON number; the model has the integral ones, any integer,
  since \<^verbatim>\<open>z.number()\<close> bounds nothing.
\<close>

record sendMessageBody =
  sContent :: string
  sType :: "string option"
  sAttachmentUrl :: "string option"
  sAttachmentName :: "string option"
  sAttachmentSize :: "int option"

definition sendMessageSchema :: "sendMessageBody \<Rightarrow> messageType option" where
  "sendMessageSchema b =
     (if 1 \<le> length (sContent b) \<and> length (sContent b) \<le> 5000
      then parseMessageType (sType b) else None)"

text \<open>\<^verbatim>\<open>x || null\<close> on an optional string or number: the empty string and 0 are falsy.\<close>

definition orNullStr :: "string option \<Rightarrow> string option" where
  "orNullStr x = (case x of None \<Rightarrow> None | Some v \<Rightarrow> if v = [] then None else Some v)"

definition orNullNum :: "int option \<Rightarrow> int option" where
  "orNullNum x = (case x of None \<Rightarrow> None | Some v \<Rightarrow> if v = 0 then None else Some v)"

text \<open>\<^verbatim>\<open>String.prototype.trim\<close>, on the white space that a one-byte character can be.\<close>

definition isWhiteSpace :: "char \<Rightarrow> bool" where
  "isWhiteSpace c \<longleftrightarrow> (of_char c :: nat) \<in> {9, 10, 11, 12, 13, 32, 160}"

definition trim :: "string \<Rightarrow> string" where
  "trim x = rev (dropWhile isWhiteSpace (rev (dropWhile isWhiteSpace x)))"

subsection \<open>Chats\<close>

text \<open>\<^verbatim>\<open>!participant || participant.role !== 'admin'\<close>\<close>

definition notAdmin :: "'a chatParticipant_scheme option \<Rightarrow> bool" where
  "notAdmin participant \<longleftrightarrow>
     (case participant of None \<Rightarrow> True | Some p \<Rightarrow> pRole p \<noteq> Admin)"

text \<open>POST /api/chats\<close>

definition postChats ::
  "db \<Rightarrow> timestamp \<Rightarrow> userIdent \<Rightarrow> string \<Rightarrow> chatWithDetails option response \<times> db" where
  "postChats s now userId participantId =
     (if \<not> 1 \<le> length participantId then (Failure 400 ''Invalid chat data'', s)
      else
        case getPrivateChatBetweenUsers s userId participantId of
          Some existingChat \<Rightarrow> (Json (getChatWithDetails s (cId existingChat)), s)
        | None \<Rightarrow>
            (case createChat s now Private None None None of
               (c, s1) \<Rightarrow>
                 (case addChatParticipant s1 now (cId c) userId None of
                    (_, s2) \<Rightarrow>
                      (case addChatParticipant s2 now (cId c) participantId None of
                         (_, s3) \<Rightarrow> (Json (getChatWithDetails s3 (cId c)), s3)))))"

text \<open>POST /api/groups\<close>

fun addMembersLoop :: "db \<Rightarrow> timestamp \<Rightarrow> uuid \<Rightarrow> userIdent list \<Rightarrow> db" where
  "addMembersLoop s now chatId [] = s"
| "addMembersLoop s now chatId (memberId # rest) =
     addMembersLoop (snd (addChatParticipant s now chatId memberId (Some Member)))
       now chatId rest"

definition postGroups ::
  "db \<Rightarrow> timestamp \<Rightarrow> userIdent \<Rightarrow> createGroupBody \<Rightarrow> chatWithDetails option response \<times> db"
  where
  "postGroups s now userId b =
     (case createGroupSchema b of
        None \<Rightarrow> (Failure 400 ''Invalid group data'', s)
      | Some ty \<Rightarrow>
          (case createChat s now ty (Some (gName b)) (orNullStr (gDescription b))
                  (Some userId) of
             (c, s1) \<Rightarrow>
               (case addChatParticipant s1 now (cId c) userId (Some Admin) of
                  (_, s2) \<Rightarrow>
                    (let s3 = addMembersLoop s2 now (cId c)
                                (case gMemberIds b of None \<Rightarrow> [] | Some ms \<Rightarrow> ms)
                     in (Json (getChatWithDetails s3 (cId c)), s3)))))"

text \<open>GET /api/chats/:chatId/messages\<close>

definition getChatMessages ::
  "db \<Rightarrow> timestamp \<Rightarrow> userIdent \<Rightarrow> uuid \<Rightarrow> messageWithSender list response \<times> db" where
  "getChatMessages s now userId chatId =
     (let s1 = markMessagesAsRead s now chatId userId
      in (Json (getMessages s1 chatId 50), s1))"

text \<open>POST /api/chats/:chatId/messages\<close>

definition postMessage ::
  "db \<Rightarrow> timestamp \<Rightarrow> userIdent \<Rightarrow> uuid \<Rightarrow> sendMessageBody \<Rightarrow> message response \<times> db" where
  "postMessage s now userId chatId b =
     (case sendMessageSchema b of
        None \<Rightarrow> (Failure 400 ''Invalid message data'', s)
      | Some ty \<Rightarrow>
          (let c = getChatWithDetails s chatId
           in if (case c of
                    None \<Rightarrow> False
                  | Some d \<Rightarrow> cType d = Channel \<and>
                              notAdmin (find (\<lambda>p. pUserId p = userId) (participants d)))
              then (Failure 403 ''Only admins can post in channels'', s)
              else
                case createMessage s now chatId userId (trim (sContent b)) ty
                       (orNullStr (sAttachmentUrl b)) (orNullStr (sAttachmentName b))
                       (orNullNum (sAttachmentSize b)) of
                  Inl err \<Rightarrow> (Failure 500 ''Failed to send message'', s)
                | Inr (m, s1) \<Rightarrow> (Json m, s1)))"

text \<open>PATCH /api/groups/:chatId\<close>

record updateGroupBody =
  uName :: "string option"
  uDescription :: "string option"
  uIconUrl :: "string option"

definition updateGroupSchema :: "updateGroupBody \<Rightarrow> bool" where
  "updateGroupSchema b \<longleftrightarrow>
     (case uName b of None \<Rightarrow> True | Some n \<Rightarrow> 1 \<le> length n \<and> length n \<le> 100) \<and>
     (case uDescription b of None \<Rightarrow> True | Some d \<Rightarrow> length d \<le> 500)"

definition patchGroup ::
  "db \<Rightarrow> timestamp \<Rightarrow> userIdent \<Rightarrow> uuid \<Rightarrow> updateGroupBody \<Rightarrow> chat option response \<times> db"
  where
  "patchGroup s now userId chatId b =
     (if \<not> updateGroupSchema b then (Failure 400 ''Invalid data'', s)
      else if notAdmin (getChatParticipant s chatId userId)
      then (Failure 403 ''Only admins can update group settings'', s)
      else
        case updateChat s now chatId (uName b) (uDescription b) (uIconUrl b) of
          Inl err \<Rightarrow> (Failure 500 ''Failed to update group'', s)
        | Inr (c, s1) \<Rightarrow> (Json c, s1))"

subsection \<open>Members and roles\<close>

text \<open>POST /api/groups/:chatId/members\<close>

fun addNewMembersLoop :: "db \<Rightarrow> timestamp \<Rightarrow> uuid \<Rightarrow> userIdent list \<Rightarrow> db" where
  "addNewMembersLoop s now chatId [] = s"
| "addNewMembersLoop s now chatId (memberId # rest) =
     (case getChatParticipant s chatId memberId of
        None \<Rightarrow>
          addNewMembersLoop (snd (addChatParticipant s now chatId memberId (Some Member)))
            now chatId rest
      | Some existing \<Rightarrow> addNewMembersLoop s now chatId rest)"

definition postMembers ::
  "db \<Rightarrow> timestamp \<Rightarrow> userIdent \<Rightarrow> uuid \<Rightarrow> userIdent list
     \<Rightarrow> chatWithDetails option response \<times> db" where
  "postMembers s now userId chatId memberIds =
     (if \<not> 1 \<le> length memberIds then (Failure 400 ''Invalid data'', s)
      else if notAdmin (getChatParticipant s chatId userId)
      then (Failure 403 ''Only admins can add members'', s)
      else
        let s1 = addNewMembersLoop s now chatId memberIds
        in (Json (getChatWithDetails s1 chatId), s1))"

text \<open>
  DELETE /api/groups/:chatId/members/:memberId. The body of the success response is
  \<^verbatim>\<open>{ success: true }\<close>.
\<close>

definition deleteMember ::
  "db \<Rightarrow> userIdent \<Rightarrow> uuid \<Rightarrow> userIdent \<Rightarrow> bool response \<times> db" where
  "deleteMember s userId chatId memberId =
     (case getChat s chatId of
        None \<Rightarrow> (Failure 404 ''Chat not found'', s)
      | Some c \<Rightarrow>
          if memberId \<noteq> userId \<and> notAdmin (getChatParticipant s chatId userId)
          then (Failure 403 ''Only admins can remove members'', s)
          else if Some memberId = cCreatedBy c
          then (Failure 400 ''Cannot remove the group creator'', s)
          else (Json True, removeChatParticipant s chatId memberId))"

text \<open>PATCH /api/groups/:chatId/members/:memberId/role\<close>

definition patchRole ::
  "db \<Rightarrow> userIdent \<Rightarrow> uuid \<Rightarrow> userIdent \<Rightarrow> string \<Rightarrow> chatParticipant option response \<times> db"
  where
  "patchRole s userId chatId memberId r =
     (case parseRole r of
        None \<Rightarrow> (Failure 400 ''Invalid data'', s)
      | Some newRole \<Rightarrow>
          if notAdmin (getChatParticipant s chatId userId)
          then (Failure 403 ''Only admins can change roles'', s)
          else
            case updateParticipantRole s chatId memberId newRole of
              (updated, s1) \<Rightarrow> (Json updated, s1))"

text \<open>DELETE /api/groups/:chatId\<close>

definition deleteGroup :: "db \<Rightarrow> userIdent \<Rightarrow> uuid \<Rightarrow> bool response \<times> db" where
  "deleteGroup s userId chatId =
     (case getChat s chatId of
        None \<Rightarrow> (Failure 404 ''Chat not found'', s)
      | Some c \<Rightarrow>
          if cCreatedBy c \<noteq> Some userId
          then (Failure 403 ''Only the creator can delete this group'', s)
          else (Json True, deleteChat s chatId))"

subsection \<open>Friend requests\<close>

text \<open>POST /api/friends\<close>

definition postFriends ::
  "db \<Rightarrow> timestamp \<Rightarrow> userIdent \<Rightarrow> string \<Rightarrow> friendship response \<times> db" where
  "postFriends s now userId friendId =
     (if \<not> 1 \<le> length friendId then (Failure 400 ''Invalid friend data'', s)
      else
        case getFriendship s userId friendId of
          Some existing \<Rightarrow> (Failure 400 ''Friendship already exists'', s)
        | None \<Rightarrow>
            (case createFriendship s now userId friendId Pending of
               (f, s1) \<Rightarrow> (Json f, s1)))"

text \<open>
  PATCH /api/friends/:friendshipId. The route is behind \<^verbatim>\<open>isAuthenticated\<close>, so there
  is a caller, but the handler never reads \<^verbatim>\<open>req.user\<close>.
\<close>

definition patchFriends ::
  "db \<Rightarrow> userIdent \<Rightarrow> uuid \<Rightarrow> string \<Rightarrow> friendship option response \<times> db" where
  "patchFriends s userId friendshipId st =
     (case parseFriendStatus st of
        None \<Rightarrow> (Failure 400 ''Invalid status'', s)
      | Some newStatus \<Rightarrow>
          (case updateFriendshipStatus s friendshipId newStatus of
             (f, s1) \<Rightarrow> (Json f, s1)))"

subsection \<open>Sequences of requests\<close>

text \<open>
  The requests that change the Membership Ledger, the Message Log or the friendships,
  each with its caller, and the store after a sequence of them, one after the other.
\<close>

datatype request =
    PostChats userIdent string
  | PostGroups userIdent createGroupBody
  | GetChatMessages userIdent uuid
  | PostMessage userIdent uuid sendMessageBody
  | PatchGroup userIdent uuid updateGroupBody
  | PostMembers userIdent uuid "userIdent list"
  | DeleteMember userIdent uuid userIdent
  | PatchRole userIdent uuid userIdent string
  | DeleteGroup userIdent uuid
  | PostFriends userIdent string
  | PatchFriends userIdent uuid string

fun handle :: "db \<Rightarrow> timestamp \<Rightarrow> request \<Rightarrow> nat \<times> db" where
  "handle s now (PostChats u pid) = map_prod statusOf (\<lambda>x. x) (postChats s now u pid)"
| "handle s now (PostGroups u b) = map_prod statusOf (\<lambda>x. x) (postGroups s now u b)"
| "handle s now (GetChatMessages u c) = map_prod statusOf (\<lambda>x. x) (getChatMessages s now u c)"
| "handle s now (PostMessage u c b) = map_prod statusOf (\<lambda>x. x) (postMessage s now u c b)"
| "handle s now (PatchGroup u c b) = map_prod statusOf (\<lambda>x. x) (patchGroup s now u c b)"
| "handle s now (PostMembers u c ms) = map_prod statusOf (\<lambda>x. x) (postMembers s now u c ms)"
| "handle s now (DeleteMember u c m) = map_prod statusOf (\<lambda>x. x) (deleteMember s u c m)"
| "handle s now (PatchRole u c m r) = map_prod statusOf (\<lambda>x. x) (patchRole s u c m r)"
| "handle s now (DeleteGroup u c) = map_prod statusOf (\<lambda>x. x) (deleteGroup s u c)"
| "handle s now (PostFriends u f) = map_prod statusOf (\<lambda>x. x) (postFriends s now u f)"
| "handle s now (PatchFriends u i st) = map_prod statusOf (\<lambda>x. x) (patchFriends s u i st)"

fun run :: "db \<Rightarrow> (timestamp \<times> request) list \<Rightarrow> db" where
  "run s [] = s"
| "run s ((now, r) # rs) = run (snd (handle s now r)) rs"

section \<open>Notions of the specification\<close>

text \<open>
  The read cursor of a user in a chat is the \<^verbatim>\<open>lastRead\<close> of that user's Participation,
  \<open>None\<close> when the chat was never read.
\<close>

definition readCursor :: "db \<Rightarrow> uuid \<Rightarrow> userIdent \<Rightarrow> timestamp option" where
  "readCursor s chatId userId =
     (case getChatParticipant s chatId userId of None \<Rightarrow> None | Some p \<Rightarrow> pLastRead p)"

text \<open>
  The unread count as the specification words it: the number of messages of the chat
  whose sender is not the user and whose \<^verbatim>\<open>createdAt\<close> is strictly greater than the
  user's read cursor; all messages of the chat by others when the cursor is null.
\<close>

definition unreadSpec :: "db \<Rightarrow> uuid \<Rightarrow> userIdent \<Rightarrow> nat" where
  "unreadSpec s chatId userId =
     (case readCursor s chatId userId of
        None \<Rightarrow> length (filter (\<lambda>m. mChatId m = chatId \<and> mSenderId m \<noteq> userId) (messages s))
      | Some cursor \<Rightarrow>
          length (filter (\<lambda>m. mChatId m = chatId \<and> mSenderId m \<noteq> userId \<and>
                               (case mCreatedAt m of None \<Rightarrow> False | Some t \<Rightarrow> t > cursor))
                    (messages s)))"

text \<open>
  The sort time of an entry of the chat list as the specification words it: the
  \<^verbatim>\<open>createdAt\<close> of the entry's last message if present, else the chat's own
  \<^verbatim>\<open>createdAt\<close> (the epoch when the chat has none).
\<close>

definition sortTimeSpec :: "chatWithDetails \<Rightarrow> timestamp" where
  "sortTimeSpec e =
     (let own = (case cCreatedAt e of None \<Rightarrow> 0 | Some t \<Rightarrow> t)
      in case lastMessage e of
           None \<Rightarrow> own
         | Some m \<Rightarrow> (case mCreatedAt m of None \<Rightarrow> own | Some t \<Rightarrow> t))"

section \<open>Scenarios\<close>

definition textBody :: "string \<Rightarrow> sendMessageBody" where
  "textBody c = \<lparr>sContent = c, sType = None, sAttachmentUrl = None,
     sAttachmentName = None, sAttachmentSize = None\<rparr>"

definition groupBody :: "string \<Rightarrow> userIdent list \<Rightarrow> string \<Rightarrow> createGroupBody" where
  "groupBody n ms t = \<lparr>gName = n, gDescription = None, gMemberIds = Some ms, gType = Some t\<rparr>"

text \<open>Alice creates a channel with Bob as a member (chat 0).\<close>

definition exChannel :: db where
  "exChannel = run emptyDb [(1, PostGroups ''alice'' (groupBody ''news'' [''bob''] ''channel''))]"

text \<open>Alice creates a group with Bob (chat 0) and promotes him to admin.\<close>

definition exGroup :: db where
  "exGroup = run emptyDb
     [(1, PostGroups ''alice'' (groupBody ''team'' [''bob''] ''group'')),
      (2, PatchRole ''alice'' 0 ''bob'' ''admin'')]"

text \<open>Alice opens a private chat with Bob (chat 0).\<close>

definition exPrivate :: db where
  "exPrivate = run emptyDb [(1, PostChats ''alice'' ''bob'')]"

text \<open>Alice sends Bob a friend request (friendship 0).\<close>

definition exFriends :: db where
  "exFriends = run emptyDb [(1, PostFriends ''alice'' ''bob'')]"

text \<open>
  Alice and Bob have a private chat (chat 0) with messages from Bob, Bob and Alice at
  times 2, 3 and 4; Alice never read it. Alice then creates a group with Bob (chat 6),
  and Bob opens a private chat with Carol (chat 9).
\<close>

definition exInbox :: db where
  "exInbox = run emptyDb
     [(1, PostChats ''alice'' ''bob''),
      (2, PostMessage ''bob'' 0 (textBody ''one'')),
      (3, PostMessage ''bob'' 0 (textBody ''two'')),
      (4, PostMessage ''alice'' 0 (textBody ''three'')),
      (5, PostGroups ''alice'' (groupBody ''team'' [''bob''] ''group'')),
      (6, PostChats ''bob'' ''carol'')]"

text \<open>Then Alice reads the private chat at time 7, and Bob posts into it at time 8.\<close>

definition exInboxRead :: db where
  "exInboxRead = run exInbox
     [(7, GetChatMessages ''alice'' 0), (8, PostMessage ''bob'' 0 (textBody ''four''))]"

text \<open>
  Alice opens a private chat with Bob (chat 0) at time 1, creates a group with Bob
  (chat 3) at time 5 and a channel (chat 6) at time 7; Bob posts into the private chat
  at time 10, and Alice renames the group at time 20.
\<close>

definition exTimeline :: db where
  "exTimeline = run emptyDb
     [(1, PostChats ''alice'' ''bob''),
      (5, PostGroups ''alice'' (groupBody ''team'' [''bob''] ''group'')),
      (7, PostGroups ''alice'' (groupBody ''news'' [] ''channel'')),
      (10, PostMessage ''bob'' 0 (textBody ''one'')),
      (20, PatchGroup ''alice'' 3 \<lparr>uName = Some ''crew'', uDescription = None, uIconUrl = None\<rparr>)]"

section \<open>Lookups\<close>

lemma find_map_filter:
  "(\<And>p. Q (g p) = Q' p) \<Longrightarrow>
   find Q (map g (filter P ps)) = map_option g (find (\<lambda>p. P p \<and> Q' p) ps)"
  by (induction ps) auto

lemma participants_getChatWithDetails:
  "getChatWithDetails s chatId = Some d \<Longrightarrow> participants d = getChatParticipants s chatId"
  by (auto simp: getChatWithDetails_def chat.defs chatWithDetails.defs split: option.splits)

lemma cType_getChatWithDetails:
  "getChatWithDetails s chatId = Some d \<Longrightarrow> getChat s chatId = Some c \<Longrightarrow> cType d = cType c"
  by (auto simp: getChatWithDetails_def chat.defs chatWithDetails.defs split: option.splits)

lemma getChatWithDetails_None:
  "getChatWithDetails s chatId = None \<longleftrightarrow> getChat s chatId = None"
  by (auto simp: getChatWithDetails_def split: option.splits)

lemma find_participants:
  "find (\<lambda>p. pUserId p = userId) (getChatParticipants s chatId) =
   map_option
     (\<lambda>p. chatParticipant.extend p (participantWithProfile.fields (getProfile s (pUserId p))))
     (getChatParticipant s chatId userId)"
  unfolding getChatParticipants_def getChatParticipant_def
  by (rule find_map_filter) (simp add: chatParticipant.defs)

text \<open>
  The channel check reads the caller's row from the joined participants of the chat; it
  is the row that \<^const>\<open>getChatParticipant\<close> finds.
\<close>

lemma notAdmin_participants:
  "notAdmin (find (\<lambda>p. pUserId p = userId) (getChatParticipants s chatId)) =
   notAdmin (getChatParticipant s chatId userId)"
  by (cases "getChatParticipant s chatId userId")
     (simp_all add: find_participants notAdmin_def chatParticipant.defs)

lemma notAdmin_find:
  "\<forall>p\<in>set ps. P p \<longrightarrow> pRole p \<noteq> Admin \<Longrightarrow> notAdmin (find P ps)"
  by (induction ps) (auto simp: notAdmin_def)

section \<open>Posting messages\<close>

lemma postMessage_channel:
  assumes "getChat s chatId = Some c" and "cType c = Channel"
    and "sendMessageSchema b = Some ty"
  shows "postMessage s now userId chatId b =
    (if notAdmin (getChatParticipant s chatId userId)
     then (Failure 403 ''Only admins can post in channels'', s)
     else (case createMessage s now chatId userId (trim (sContent b)) ty
                  (orNullStr (sAttachmentUrl b)) (orNullStr (sAttachmentName b))
                  (orNullNum (sAttachmentSize b)) of
             Inl err \<Rightarrow> (Failure 500 ''Failed to send message'', s)
           | Inr (m, s1) \<Rightarrow> (Json m, s1)))"
proof (cases "getChatWithDetails s chatId")
  case None
  with assms(1) show ?thesis by (simp add: getChatWithDetails_None)
next
  case (Some d)
  with assms show ?thesis
    by (simp add: postMessage_def participants_getChatWithDetails [OF Some]
        cType_getChatWithDetails [OF Some assms(1)] notAdmin_participants)
qed

text \<open>
  C6. In a channel, a sender who has no Participation with role admin cannot post: the
  request leaves the store, and so the Message Log, as it was, and a body that passes
  validation is answered with 403 Forbidden (validation comes first; a body that fails
  it is answered with 400, and nothing is stored either).
\<close>

theorem postMessage_channel_non_admin:
  assumes "getChat s chatId = Some c" and "cType c = Channel"
    and "\<forall>p\<in>set (chatParticipants s).
           pChatId p = chatId \<and> pUserId p = userId \<longrightarrow> pRole p \<noteq> Admin"
  shows "snd (postMessage s now userId chatId b) = s \<and>
         messages (snd (postMessage s now userId chatId b)) = messages s \<and>
         (sendMessageSchema b \<noteq> None \<longrightarrow>
            fst (postMessage s now userId chatId b) =
              Failure 403 ''Only admins can post in channels'')"
proof (cases "sendMessageSchema b")
  case None
  then show ?thesis by (simp add: postMessage_def)
next
  case (Some ty)
  have "notAdmin (getChatParticipant s chatId userId)"
    unfolding getChatParticipant_def using assms(3) by (intro notAdmin_find) blast
  with postMessage_channel [OF assms(1,2) Some] Some show ?thesis by simp
qed

theorem postMessage_channel_non_admin_witness:
  "map_option cType (getChat exChannel 0) = Some Channel \<and>
   map (\<lambda>p. (pChatId p, pUserId p, pRole p)) (chatParticipants exChannel) =
     [(0, ''alice'', Admin), (0, ''bob'', Member)] \<and>
   sendMessageSchema (textBody ''hello'') = Some TextMsg \<and>
   postMessage exChannel 2 ''bob'' 0 (textBody ''hello'') =
     (Failure 403 ''Only admins can post in channels'', exChannel)"
proof -
  have ty: "map_option cType (getChat exChannel 0) = Some Channel"
    by code_simp
  then obtain c where c: "getChat exChannel 0 = Some c" "cType c = Channel"
    by auto
  have ps: "map (\<lambda>p. (pChatId p, pUserId p, pRole p)) (chatParticipants exChannel) =
     [(0, ''alice'', Admin), (0, ''bob'', Member)]"
    by code_simp
  have na: "\<forall>p\<in>set (chatParticipants exChannel).
           pChatId p = 0 \<and> pUserId p = ''bob'' \<longrightarrow> pRole p \<noteq> Admin"
    by code_simp
  have v: "sendMessageSchema (textBody ''hello'') = Some TextMsg"
    by code_simp
  from postMessage_channel_non_admin [OF c na, of 2 "textBody ''hello''"] v
  have "postMessage exChannel 2 ''bob'' 0 (textBody ''hello'') =
     (Failure 403 ''Only admins can post in channels'', exChannel)"
    by (simp add: prod_eq_iff)
  with ty ps v show ?thesis by simp
qed

text \<open>
  C2, as stated, fails: the handler checks the sender's membership for channels only.
  Carol, who is not a participant of the private chat of Alice and Bob, posts into it;
  the request is answered with 200 and her message is in the Message Log.
\<close>

theorem postMessage_non_participant_counterexample:
  "map_option cType (getChat exPrivate 0) = Some Private \<and>
   map pUserId (chatParticipants exPrivate) = [''alice'', ''bob''] \<and>
   messages exPrivate = [] \<and>
   statusOf (fst (postMessage exPrivate 2 ''carol'' 0 (textBody ''hi''))) = 200 \<and>
   map (\<lambda>m. (mChatId m, mSenderId m, mContent m))
     (messages (snd (postMessage exPrivate 2 ''carol'' 0 (textBody ''hi'')))) =
     [(0, ''carol'', ''hi'')]"
  by code_simp

text \<open>What the row of a message holds of a body is storable when the body is.\<close>

lemma storableText_trim: "storableText (trim x) \<longleftrightarrow> storableText x"
proof -
  have keep: "CHR 0x00 \<in> set (dropWhile isWhiteSpace xs) \<longleftrightarrow> CHR 0x00 \<in> set xs" for xs
    by (induction xs) (auto simp: isWhiteSpace_def)
  show ?thesis
    unfolding storableText_def trim_def by (simp add: keep)
qed

lemma storableTextOpt_orNullStr: "storableTextOpt (orNullStr x) \<longleftrightarrow> storableTextOpt x"
  by (cases x) (auto simp: storableTextOpt_def orNullStr_def storableText_def)

lemma storableInteger_orNullNum: "storableInteger (orNullNum x) \<longleftrightarrow> storableInteger x"
  by (cases x) (auto simp: storableInteger_def orNullNum_def)

lemma postMessage_not_channel:
  assumes "getChat s chatId = Some c" and "cType c \<noteq> Channel"
    and "sendMessageSchema b = Some ty"
  shows "postMessage s now userId chatId b =
    (case createMessage s now chatId userId (trim (sContent b)) ty
            (orNullStr (sAttachmentUrl b)) (orNullStr (sAttachmentName b))
            (orNullNum (sAttachmentSize b)) of
       Inl err \<Rightarrow> (Failure 500 ''Failed to send message'', s)
     | Inr (m, s1) \<Rightarrow> (Json m, s1))"
proof (cases "getChatWithDetails s chatId")
  case None
  with assms(1) show ?thesis by (simp add: getChatWithDetails_None)
next
  case (Some d)
  with assms show ?thesis
    by (simp add: postMessage_def cType_getChatWithDetails [OF Some assms(1)])
qed

text \<open>
  A validated body whose row the store cannot hold is answered with 500, and nothing is
  stored.
\<close>

lemma postMessage_not_storable:
  assumes "getChat s chatId = Some c" and "cType c \<noteq> Channel"
    and "sendMessageSchema b = Some ty"
    and "\<not> (storableText userId \<and> storableText (sContent b) \<and>
            storableTextOpt (sAttachmentUrl b) \<and> storableTextOpt (sAttachmentName b) \<and>
            storableInteger (sAttachmentSize b))"
  shows "postMessage s now userId chatId b = (Failure 500 ''Failed to send message'', s)"
proof -
  from assms(4)
  have "createMessage s now chatId userId (trim (sContent b)) ty
          (orNullStr (sAttachmentUrl b)) (orNullStr (sAttachmentName b))
          (orNullNum (sAttachmentSize b)) = Inl InvalidValue"
    by (simp add: createMessage_def storableText_trim storableTextOpt_orNullStr
        storableInteger_orNullNum)
  with postMessage_not_channel [OF assms(1-3)] show ?thesis by simp
qed

text \<open>
  C2, amended. In a group chat or a private chat, a message append with a body that
  passes validation and whose row the store can hold (no character U+0000 in the
  sender's id, the content, the attachment url and name; an attachment size within the
  32-bit integer column) succeeds for every sender, participant of the chat or not: the
  response carries the new message, and the Message Log is the old one with that
  message, of that sender and chat, at its end.
\<close>

theorem postMessage_any_sender:
  assumes "getChat s chatId = Some c" and "cType c = Group \<or> cType c = Private"
    and "sendMessageSchema b = Some ty"
    and "storableText userId" and "storableText (sContent b)"
    and "storableTextOpt (sAttachmentUrl b)" and "storableTextOpt (sAttachmentName b)"
    and "storableInteger (sAttachmentSize b)"
  shows "\<exists>m. fst (postMessage s now userId chatId b) = Json m \<and>
           mChatId m = chatId \<and> mSenderId m = userId \<and> mContent m = trim (sContent b) \<and>
           messages (snd (postMessage s now userId chatId b)) = messages s @ [m]"
proof -
  from assms(2) have "cType c \<noteq> Channel" by auto
  from postMessage_not_channel [OF assms(1) this assms(3)] assms(4-8) show ?thesis
    by (simp add: createMessage_def Let_def storableText_trim storableTextOpt_orNullStr
        storableInteger_orNullNum)
qed

theorem postMessage_any_sender_witness:
  "map_option cType (getChat exPrivate 0) = Some Private \<and>
   sendMessageSchema (textBody ''hi'') = Some TextMsg \<and>
   storableText ''carol'' \<and> storableText (sContent (textBody ''hi'')) \<and>
   storableTextOpt (sAttachmentUrl (textBody ''hi'')) \<and>
   storableTextOpt (sAttachmentName (textBody ''hi'')) \<and>
   storableInteger (sAttachmentSize (textBody ''hi'')) \<and>
   map pUserId (chatParticipants exPrivate) = [''alice'', ''bob''] \<and>
   statusOf (fst (postMessage exPrivate 2 ''carol'' 0 (textBody ''hi''))) = 200 \<and>
   length (messages (snd (postMessage exPrivate 2 ''carol'' 0 (textBody ''hi'')))) =
     Suc (length (messages exPrivate))"
proof -
  have h: "map_option cType (getChat exPrivate 0) = Some Private"
    by code_simp
  then obtain c where c: "getChat exPrivate 0 = Some c" "cType c = Group \<or> cType c = Private"
    by auto
  have v: "sendMessageSchema (textBody ''hi'') = Some TextMsg"
    by code_simp
  have st: "storableText ''carol''" "storableText (sContent (textBody ''hi''))"
    "storableTextOpt (sAttachmentUrl (textBody ''hi''))"
    "storableTextOpt (sAttachmentName (textBody ''hi''))"
    "storableInteger (sAttachmentSize (textBody ''hi''))"
    by code_simp+
  have ps: "map pUserId (chatParticipants exPrivate) = [''alice'', ''bob'']"
    by code_simp
  from postMessage_any_sender [OF c v st, of 2]
  have "statusOf (fst (postMessage exPrivate 2 ''carol'' 0 (textBody ''hi''))) = 200 \<and>
   length (messages (snd (postMessage exPrivate 2 ''carol'' 0 (textBody ''hi'')))) =
     Suc (length (messages exPrivate))"
    by auto
  with h v st ps show ?thesis by blast
qed

section \<open>Removing members\<close>

text \<open>
  C3, as stated, fails on the status: Bob, an admin of Alice's group, asks to remove
  Alice, the creator; the request is refused with status 400, not 403.
\<close>

theorem deleteMember_creator_by_other_counterexample:
  "map_option cCreatedBy (getChat exGroup 0) = Some (Some ''alice'') \<and>
   map_option pRole (getChatParticipant exGroup 0 ''bob'') = Some Admin \<and>
   ''bob'' \<noteq> ''alice'' \<and>
   fst (deleteMember exGroup ''bob'' 0 ''alice'') = Failure 400 ''Cannot remove the group creator'' \<and>
   statusOf (fst (deleteMember exGroup ''bob'' 0 ''alice'')) \<noteq> 403"
  by code_simp

text \<open>
  C3, amended. In a chat with a creator, the request of any other caller to remove the
  creator fails and leaves the store, and so the creator's Participation row, as it
  was; the status is 403 Forbidden when the caller is not an admin of the chat, and 400
  when the caller is an admin.
\<close>

theorem deleteMember_creator_by_other:
  assumes "getChat s chatId = Some c" and "cCreatedBy c = Some creator"
    and "userId \<noteq> creator"
  shows "snd (deleteMember s userId chatId creator) = s \<and>
         getChatParticipant (snd (deleteMember s userId chatId creator)) chatId creator =
           getChatParticipant s chatId creator \<and>
         statusOf (fst (deleteMember s userId chatId creator)) =
           (if notAdmin (getChatParticipant s chatId userId) then 403 else 400)"
  using assms by (simp add: deleteMember_def)

theorem deleteMember_creator_by_other_witness:
  "map_option cCreatedBy (getChat exGroup 0) = Some (Some ''alice'') \<and>
   map (\<lambda>p. (pUserId p, pRole p)) (chatParticipants exGroup) =
     [(''alice'', Admin), (''bob'', Admin)] \<and>
   snd (deleteMember exGroup ''bob'' 0 ''alice'') = exGroup \<and>
   statusOf (fst (deleteMember exGroup ''bob'' 0 ''alice'')) = 400 \<and>
   map_option cCreatedBy (getChat exChannel 0) = Some (Some ''alice'') \<and>
   map (\<lambda>p. (pUserId p, pRole p)) (chatParticipants exChannel) =
     [(''alice'', Admin), (''bob'', Member)] \<and>
   snd (deleteMember exChannel ''bob'' 0 ''alice'') = exChannel \<and>
   statusOf (fst (deleteMember exChannel ''bob'' 0 ''alice'')) = 403"
proof -
  have g: "map_option cCreatedBy (getChat exGroup 0) = Some (Some ''alice'')"
    by code_simp
  then obtain c where c: "getChat exGroup 0 = Some c" "cCreatedBy c = Some ''alice''"
    by auto
  have gp: "map (\<lambda>p. (pUserId p, pRole p)) (chatParticipants exGroup) =
     [(''alice'', Admin), (''bob'', Admin)]"
    by code_simp
  have ga: "\<not> notAdmin (getChatParticipant exGroup 0 ''bob'')"
    by code_simp
  have h: "map_option cCreatedBy (getChat exChannel 0) = Some (Some ''alice'')"
    by code_simp
  then obtain d where d: "getChat exChannel 0 = Some d" "cCreatedBy d = Some ''alice''"
    by auto
  have hp: "map (\<lambda>p. (pUserId p, pRole p)) (chatParticipants exChannel) =
     [(''alice'', Admin), (''bob'', Member)]"
    by code_simp
  have ha: "notAdmin (getChatParticipant exChannel 0 ''bob'')"
    by code_simp
  have ne: "''bob'' \<noteq> ''alice''" by simp
  from deleteMember_creator_by_other [OF c ne] ga
  have r1: "snd (deleteMember exGroup ''bob'' 0 ''alice'') = exGroup \<and>
   statusOf (fst (deleteMember exGroup ''bob'' 0 ''alice'')) = 400"
    by simp
  from deleteMember_creator_by_other [OF d ne] ha
  have r2: "snd (deleteMember exChannel ''bob'' 0 ''alice'') = exChannel \<and>
   statusOf (fst (deleteMember exChannel ''bob'' 0 ''alice'')) = 403"
    by simp
  from g gp r1 h hp r2 show ?thesis by blast
qed

text \<open>
  C8, as stated, fails: the creator guard of the handler does not look at the caller.
  Alice, the creator of the group, asks to remove herself; the request is refused with
  status 400 and her Participation row stays.
\<close>

theorem deleteMember_creator_self_counterexample:
  "map_option cCreatedBy (getChat exGroup 0) = Some (Some ''alice'') \<and>
   fst (deleteMember exGroup ''alice'' 0 ''alice'') = Failure 400 ''Cannot remove the group creator'' \<and>
   map pUserId (chatParticipants (snd (deleteMember exGroup ''alice'' 0 ''alice''))) = [''alice'', ''bob'']"
  by code_simp

text \<open>
  C8, amended. In a chat with a creator, the creator cannot leave: a self-removal
  request of the creator fails with status 400 and leaves the store, and so the
  creator's Participation row, as it was.
\<close>

theorem deleteMember_creator_self:
  assumes "getChat s chatId = Some c" and "cCreatedBy c = Some creator"
  shows "deleteMember s creator chatId creator =
           (Failure 400 ''Cannot remove the group creator'', s)"
  using assms by (simp add: deleteMember_def)

theorem deleteMember_creator_self_witness:
  "map_option cCreatedBy (getChat exChannel 0) = Some (Some ''alice'') \<and>
   deleteMember exChannel ''alice'' 0 ''alice'' =
     (Failure 400 ''Cannot remove the group creator'', exChannel)"
proof -
  have h: "map_option cCreatedBy (getChat exChannel 0) = Some (Some ''alice'')"
    by code_simp
  then obtain d where d: "getChat exChannel 0 = Some d" "cCreatedBy d = Some ''alice''"
    by auto
  from h deleteMember_creator_self [OF d] show ?thesis by simp
qed

text \<open>
  C4. The member-removal handler does not look at the kind of the chat, and a private
  chat has no creator, so a participant of a private chat removes themself: after
  Alice's request, answered with 200, the private chat of Alice and Bob has one
  participant.
\<close>

theorem deleteMember_private_self:
  "map_option cType (getChat exPrivate 0) = Some Private \<and>
   map pUserId (chatParticipants exPrivate) = [''alice'', ''bob''] \<and>
   statusOf (fst (deleteMember exPrivate ''alice'' 0 ''alice'')) = 200 \<and>
   map pUserId (chatParticipants (snd (deleteMember exPrivate ''alice'' 0 ''alice''))) = [''bob'']"
  by code_simp

section \<open>Roles\<close>

text \<open>
  C1. The role-update handler checks that the caller is an admin and nothing about the
  target: Bob, promoted to admin by Alice, sets the role of Alice, the creator of the
  group, to member. The request is answered with 200, and Alice is still a participant,
  with role member.
\<close>

theorem patchRole_creator_demoted:
  "map_option cCreatedBy (getChat exGroup 0) = Some (Some ''alice'') \<and>
   map (\<lambda>p. (pUserId p, pRole p)) (chatParticipants exGroup) =
     [(''alice'', Admin), (''bob'', Admin)] \<and>
   statusOf (fst (patchRole exGroup ''bob'' 0 ''alice'' ''member'')) = 200 \<and>
   map (\<lambda>p. (pUserId p, pRole p))
     (chatParticipants (snd (patchRole exGroup ''bob'' 0 ''alice'' ''member''))) =
     [(''alice'', Member), (''bob'', Admin)]"
  by code_simp

section \<open>Membership Ledger\<close>

text \<open>
  C7, as stated, fails: \<^verbatim>\<open>addChatParticipant\<close> is a bare insert into a table with no
  uniqueness constraint on the pair. Bob is a participant of the channel; adding him
  again changes the ledger, which then holds two rows of the pair.
\<close>

theorem addChatParticipant_existing_counterexample:
  "map_option pUserId (getChatParticipant exChannel 0 ''bob'') = Some ''bob'' \<and>
   map (\<lambda>p. (pChatId p, pUserId p)) (chatParticipants exChannel) =
     [(0, ''alice''), (0, ''bob'')] \<and>
   map (\<lambda>p. (pChatId p, pUserId p))
     (chatParticipants (snd (addChatParticipant exChannel 2 0 ''bob'' None))) =
     [(0, ''alice''), (0, ''bob''), (0, ''bob'')] \<and>
   chatParticipants (snd (addChatParticipant exChannel 2 0 ''bob'' None)) \<noteq>
     chatParticipants exChannel"
  by code_simp

text \<open>
  C7, amended. When a Participation of the pair (chatId, userId) exists already,
  \<^verbatim>\<open>addParticipant(chatId, userId)\<close> does not fail: it returns a new row of the pair,
  with the role given (member by default), and the Membership Ledger is the old one with
  that row at its end. The caller has to check first, as the bulk member-add does: it
  adds nothing for a user who is a participant already.
\<close>

theorem addChatParticipant_existing:
  assumes "getChatParticipant s chatId userId = Some p"
  shows "chatParticipants (snd (addChatParticipant s now chatId userId r)) =
           chatParticipants s @ [fst (addChatParticipant s now chatId userId r)] \<and>
         pChatId (fst (addChatParticipant s now chatId userId r)) = chatId \<and>
         pUserId (fst (addChatParticipant s now chatId userId r)) = userId \<and>
         pRole (fst (addChatParticipant s now chatId userId r)) =
           (case r of None \<Rightarrow> Member | Some x \<Rightarrow> x) \<and>
         addNewMembersLoop s now chatId [userId] = s"
  using assms by (simp add: addChatParticipant_def Let_def)

theorem addChatParticipant_existing_witness:
  "map_option pUserId (getChatParticipant exChannel 0 ''bob'') = Some ''bob'' \<and>
   map (\<lambda>p. (pChatId p, pUserId p, pRole p))
     (chatParticipants (snd (addChatParticipant exChannel 2 0 ''bob'' None))) =
     [(0, ''alice'', Admin), (0, ''bob'', Member), (0, ''bob'', Member)] \<and>
   addNewMembersLoop exChannel 2 0 [''bob''] = exChannel"
proof -
  have h: "map_option pUserId (getChatParticipant exChannel 0 ''bob'') = Some ''bob''"
    by code_simp
  then obtain p where p: "getChatParticipant exChannel 0 ''bob'' = Some p"
    by auto
  have ps: "map (\<lambda>p. (pChatId p, pUserId p, pRole p)) (chatParticipants exChannel) =
     [(0, ''alice'', Admin), (0, ''bob'', Member)]"
    by code_simp
  from addChatParticipant_existing [OF p, of 2 None] ps h show ?thesis
    by simp
qed

section \<open>Friend requests\<close>

text \<open>
  C10. The friendship-status update does not depend on the caller: two callers get the
  same response and leave the same store. So a caller who is neither the sender nor the
  receiver of a friend request accepts or rejects it: the request is answered with 200
  and the friendship row carries the new status.
\<close>

theorem patchFriends_any_caller:
  "patchFriends s caller1 friendshipId st = patchFriends s caller2 friendshipId st \<and>
   (\<forall>f\<in>set (friendships s). \<forall>newStatus.
      caller1 \<noteq> fUserId f \<and> caller1 \<noteq> fFriendId f \<and> fId f = friendshipId \<and>
      parseFriendStatus st = Some newStatus \<longrightarrow>
        statusOf (fst (patchFriends s caller1 friendshipId st)) = 200 \<and>
        f\<lparr>fStatus := newStatus\<rparr>
          \<in> set (friendships (snd (patchFriends s caller1 friendshipId st))))"
  by (auto simp: patchFriends_def updateFriendshipStatus_def Let_def split: option.splits)

theorem patchFriends_any_caller_witness:
  "map (\<lambda>f. (fId f, fUserId f, fFriendId f, fStatus f)) (friendships exFriends) =
     [(0, ''alice'', ''bob'', Pending)] \<and>
   parseFriendStatus ''accepted'' = Some Accepted \<and>
   patchFriends exFriends ''carol'' 0 ''accepted'' = patchFriends exFriends ''bob'' 0 ''accepted'' \<and>
   statusOf (fst (patchFriends exFriends ''carol'' 0 ''accepted'')) = 200 \<and>
   map (\<lambda>f. (fId f, fUserId f, fFriendId f, fStatus f))
     (friendships (snd (patchFriends exFriends ''carol'' 0 ''accepted''))) =
     [(0, ''alice'', ''bob'', Accepted)]"
proof -
  have fs: "map (\<lambda>f. (fId f, fUserId f, fFriendId f, fStatus f)) (friendships exFriends) =
     [(0, ''alice'', ''bob'', Pending)]"
    by code_simp
  then obtain f where f: "friendships exFriends = [f]" "fId f = 0" "fUserId f = ''alice''"
      "fFriendId f = ''bob''"
    by auto
  have p: "parseFriendStatus ''accepted'' = Some Accepted"
    by code_simp
  have after: "map (\<lambda>f. (fId f, fUserId f, fFriendId f, fStatus f))
     (friendships (snd (patchFriends exFriends ''carol'' 0 ''accepted''))) =
     [(0, ''alice'', ''bob'', Accepted)]"
    by code_simp
  note any = patchFriends_any_caller [of exFriends "''carol''" 0 "''accepted''" "''bob''"]
  from any have same: "patchFriends exFriends ''carol'' 0 ''accepted'' =
          patchFriends exFriends ''bob'' 0 ''accepted''"
    by (rule conjunct1)
  from conjunct2 [OF any] f p
  have ok: "statusOf (fst (patchFriends exFriends ''carol'' 0 ''accepted'')) = 200"
    by simp
  from fs p same ok after show ?thesis by blast
qed

section \<open>Chat list\<close>

text \<open>
  The cursor that the callback reads from the user's participations is the read cursor
  of the user in the chat, and the unread query counts what the specification says.
\<close>

lemma getChat_cId: "getChat s chatId = Some c \<Longrightarrow> cId c = chatId"
  by (auto simp: getChat_def find_Some_iff)

lemma find_filter_conj:
  "find P (filter Q xs) = find (\<lambda>x. P x \<and> Q x) xs"
  by (induction xs) auto

lemma userParticipation_readCursor:
  "(case find (\<lambda>p. pChatId p = chatId) (filter (\<lambda>p. pUserId p = userId) (chatParticipants s)) of
      None \<Rightarrow> None | Some p \<Rightarrow> pLastRead p) = readCursor s chatId userId"
  by (simp add: readCursor_def getChatParticipant_def find_filter_conj)

lemma unreadWhere_count:
  "length (filter (unreadWhere chatId userId (readCursor s chatId userId)) (messages s)) =
   unreadSpec s chatId userId"
proof (cases "readCursor s chatId userId")
  case None
  have "unreadWhere chatId userId None =
        (\<lambda>m. mChatId m = chatId \<and> mSenderId m \<noteq> userId)"
    by (rule ext) (simp add: unreadWhere_def)
  with None show ?thesis by (simp add: unreadSpec_def)
next
  case (Some cursor)
  have "unreadWhere chatId userId (Some cursor) =
        (\<lambda>m. mChatId m = chatId \<and> mSenderId m \<noteq> userId \<and>
              (case mCreatedAt m of None \<Rightarrow> False | Some t \<Rightarrow> t > cursor))"
    by (rule ext) (simp add: unreadWhere_def)
  with Some show ?thesis by (simp add: unreadSpec_def)
qed

text \<open>
  The last message of a chat: the first row of the descending order, so no message of
  the chat is later.
\<close>

lemma hd_sort_key_least:
  assumes "sort_key f xs = y # ys"
  shows "y \<in> set xs \<and> (\<forall>z\<in>set xs. f y \<le> f z)"
proof -
  have "sorted (map f (y # ys))" using sorted_sort_key [of f xs] assms by simp
  moreover have "set xs = set (y # ys)" using set_sort [of f xs] assms by simp
  ultimately show ?thesis by auto
qed

lemma sort_key_Nil_iff: "sort_key f xs = [] \<longleftrightarrow> xs = []"
  using length_sort [of f xs] by (metis length_0_conv)

lemma descCreatedAt_le:
  "descCreatedAt a \<le> descCreatedAt b \<Longrightarrow> mCreatedAt a = Some t \<Longrightarrow>
   \<exists>t'. mCreatedAt b = Some t' \<and> t' \<le> t"
  by (cases "mCreatedAt b") (auto simp: descCreatedAt_def)

lemma getMessages_one:
  "(case getMessages s chatId 1 of
      [] \<Rightarrow> \<forall>m\<in>set (messages s). mChatId m \<noteq> chatId
    | lm # _ \<Rightarrow>
        mChatId lm = chatId \<and> message.truncate lm \<in> set (messages s) \<and>
        (\<forall>m\<in>set (messages s). mChatId m = chatId \<longrightarrow>
           (\<forall>t. mCreatedAt lm = Some t \<longrightarrow> (\<exists>t'. mCreatedAt m = Some t' \<and> t' \<le> t))))"
proof (cases "sort_key descCreatedAt (filter (\<lambda>m. mChatId m = chatId) (messages s))")
  case Nil
  then have "filter (\<lambda>m. mChatId m = chatId) (messages s) = []"
    by (simp add: sort_key_Nil_iff)
  then have "\<forall>m\<in>set (messages s). mChatId m \<noteq> chatId"
    by (simp add: filter_empty_conv)
  with Nil show ?thesis by (simp add: getMessages_def)
next
  case (Cons y ys)
  from hd_sort_key_least [OF Cons]
  have y: "y \<in> set (messages s)" "mChatId y = chatId"
    and least: "\<forall>z\<in>set (messages s). mChatId z = chatId \<longrightarrow> descCreatedAt y \<le> descCreatedAt z"
    by auto
  have "getMessages s chatId 1 =
        [message.extend y (messageWithSender.fields (getProfile s (mSenderId y)))]"
    using Cons by (simp add: getMessages_def)
  moreover have "message.truncate
        (message.extend y (messageWithSender.fields (getProfile s (mSenderId y)))) = y"
    by (simp add: message.defs)
  moreover have "mCreatedAt
        (message.extend y (messageWithSender.fields (getProfile s (mSenderId y)))) = mCreatedAt y"
    by (simp add: message.defs)
  moreover have "mChatId
        (message.extend y (messageWithSender.fields (getProfile s (mSenderId y)))) = mChatId y"
    by (simp add: message.defs)
  ultimately show ?thesis using y least descCreatedAt_le by auto
qed

lemma lastMessage_getChatWithDetails:
  "getChatWithDetails s chatId = Some d \<Longrightarrow>
   lastMessage d = (case getMessages s chatId 1 of [] \<Rightarrow> None | m # _ \<Rightarrow> Some m)"
  by (auto simp: getChatWithDetails_def chat.defs chatWithDetails.defs split: option.splits)

text \<open>The entries of the chat list.\<close>

lemma userChatEntry_Some:
  assumes "userChatEntry s userId (filter (\<lambda>p. pUserId p = userId) (chatParticipants s)) chatId = Some e"
  shows "cId e = chatId" and "unreadCount e = unreadSpec s chatId userId"
    and "getChatWithDetails s chatId = Some (e\<lparr>unreadCount := 0\<rparr>)"
proof -
  from assms obtain d where d: "getChatWithDetails s chatId = Some d"
    and e: "e = d\<lparr>unreadCount := unreadSpec s chatId userId\<rparr>"
    by (auto simp: userChatEntry_def Let_def userParticipation_readCursor unreadWhere_count
        split: option.splits)
  from d obtain c where c: "getChat s chatId = Some c"
    and dc: "d = chat.extend c (chatWithDetails.fields (getChatParticipants s chatId)
            (case getMessages s chatId 1 of [] \<Rightarrow> None | m # _ \<Rightarrow> Some m) 0)"
    by (auto simp: getChatWithDetails_def split: option.splits)
  from e dc getChat_cId [OF c] show "cId e = chatId"
    by (simp add: chat.defs chatWithDetails.defs)
  from e show "unreadCount e = unreadSpec s chatId userId" by simp
  from e d dc show "getChatWithDetails s chatId = Some (e\<lparr>unreadCount := 0\<rparr>)"
    by (simp add: chat.defs chatWithDetails.defs)
qed

lemma userChatEntry_None:
  "userChatEntry s userId ups chatId = None \<longleftrightarrow> getChat s chatId = None"
  by (cases "getChatWithDetails s chatId")
     (simp_all add: userChatEntry_def Let_def getChatWithDetails_None [symmetric])

lemma userChatEntry_lastMessage:
  assumes "userChatEntry s userId (filter (\<lambda>p. pUserId p = userId) (chatParticipants s)) chatId = Some e"
  shows "lastMessage e = (case getMessages s chatId 1 of [] \<Rightarrow> None | m # _ \<Rightarrow> Some m)"
proof -
  from lastMessage_getChatWithDetails [OF userChatEntry_Some(3) [OF assms]]
  show ?thesis by simp
qed

lemma getUserChats_sort:
  "getUserChats s userId =
     sort_key (\<lambda>c. - activityTime c)
       (List.map_filter (\<lambda>c. c)
          (map (userChatEntry s userId (filter (\<lambda>p. pUserId p = userId) (chatParticipants s)))
             (map pChatId (filter (\<lambda>p. pUserId p = userId) (chatParticipants s)))))"
  by (simp add: getUserChats_def Let_def List.map_filter_def)

lemma set_map_filter_id: "set (List.map_filter (\<lambda>c. c) xs) = {e. Some e \<in> set xs}"
  by (induction xs) (auto simp: List.map_filter_def)

lemma mem_getUserChats:
  "e \<in> set (getUserChats s userId) \<longleftrightarrow>
     (\<exists>p\<in>set (chatParticipants s). pUserId p = userId \<and>
        userChatEntry s userId (filter (\<lambda>p. pUserId p = userId) (chatParticipants s))
          (pChatId p) = Some e)"
  unfolding getUserChats_sort set_sort set_map_filter_id by (auto simp: image_iff)

text \<open>
  C5. Every entry of the list that \<^verbatim>\<open>userChats\<close> returns for a user carries as its
  unread count the number of messages of that chat whose sender is not the user and
  whose \<^verbatim>\<open>createdAt\<close> is strictly greater than the user's read cursor for the chat, and
  the number of all messages of the chat by others when the cursor is null
  (\<^const>\<open>unreadSpec\<close>); and every chat the user participates in has an entry.
\<close>

theorem getUserChats_unreadCount:
  "(\<forall>e\<in>set (getUserChats s userId). unreadCount e = unreadSpec s (cId e) userId) \<and>
   (\<forall>e\<in>set (getUserChats s userId). readCursor s (cId e) userId = None \<longrightarrow>
      unreadCount e =
        length (filter (\<lambda>m. mChatId m = cId e \<and> mSenderId m \<noteq> userId) (messages s))) \<and>
   (\<forall>p\<in>set (chatParticipants s). pUserId p = userId \<and> getChat s (pChatId p) \<noteq> None \<longrightarrow>
      (\<exists>e\<in>set (getUserChats s userId). cId e = pChatId p))"
proof (intro conjI ballI impI)
  fix e assume "e \<in> set (getUserChats s userId)"
  then obtain p :: chatParticipant
    where "userChatEntry s userId (filter (\<lambda>p. pUserId p = userId) (chatParticipants s))
             (pChatId p) = Some e"
    unfolding mem_getUserChats by blast
  from userChatEntry_Some(1,2) [OF this] show "unreadCount e = unreadSpec s (cId e) userId"
    by simp
next
  fix e assume "e \<in> set (getUserChats s userId)"
    and none: "readCursor s (cId e) userId = None"
  then obtain p :: chatParticipant
    where "userChatEntry s userId (filter (\<lambda>p. pUserId p = userId) (chatParticipants s))
             (pChatId p) = Some e"
    unfolding mem_getUserChats by blast
  from userChatEntry_Some(1,2) [OF this] none
  show "unreadCount e =
        length (filter (\<lambda>m. mChatId m = cId e \<and> mSenderId m \<noteq> userId) (messages s))"
    by (simp add: unreadSpec_def)
next
  fix p assume p: "p \<in> set (chatParticipants s)"
    and "pUserId p = userId \<and> getChat s (pChatId p) \<noteq> None"
  then have u: "pUserId p = userId" and "getChat s (pChatId p) \<noteq> None" by auto
  then obtain e where e: "userChatEntry s userId (filter (\<lambda>p. pUserId p = userId) (chatParticipants s))
             (pChatId p) = Some e"
    using userChatEntry_None by fastforce
  with p u have "e \<in> set (getUserChats s userId)"
    unfolding mem_getUserChats by blast
  with userChatEntry_Some(1) [OF e] show "\<exists>e\<in>set (getUserChats s userId). cId e = pChatId p"
    by blast
qed

theorem getUserChats_unreadCount_witness:
  "map (\<lambda>e. (cId e, unreadCount e)) (getUserChats exInbox ''alice'') = [(6, 0), (0, 2)] \<and>
   readCursor exInbox 0 ''alice'' = None \<and>
   map (\<lambda>m. (mChatId m, mSenderId m, mCreatedAt m)) (messages exInbox) =
     [(0, ''bob'', Some 2), (0, ''bob'', Some 3), (0, ''alice'', Some 4)] \<and>
   unreadCount (getUserChats exInbox ''alice'' ! 1) = unreadSpec exInbox 0 ''alice'' \<and>
   map (\<lambda>e. (cId e, unreadCount e)) (getUserChats exInboxRead ''alice'') = [(0, 1), (6, 0)] \<and>
   readCursor exInboxRead 0 ''alice'' = Some 7 \<and>
   map (\<lambda>m. (mChatId m, mSenderId m, mCreatedAt m)) (messages exInboxRead) =
     [(0, ''bob'', Some 2), (0, ''bob'', Some 3), (0, ''alice'', Some 4), (0, ''bob'', Some 8)] \<and>
   unreadCount (getUserChats exInboxRead ''alice'' ! 0) = unreadSpec exInboxRead 0 ''alice''"
proof -
  have l1: "map (\<lambda>e. (cId e, unreadCount e)) (getUserChats exInbox ''alice'') = [(6, 0), (0, 2)]"
    by code_simp
  have c1: "readCursor exInbox 0 ''alice'' = None"
    by code_simp
  have m1: "map (\<lambda>m. (mChatId m, mSenderId m, mCreatedAt m)) (messages exInbox) =
     [(0, ''bob'', Some 2), (0, ''bob'', Some 3), (0, ''alice'', Some 4)]"
    by code_simp
  have l2: "map (\<lambda>e. (cId e, unreadCount e)) (getUserChats exInboxRead ''alice'') =
     [(0, 1), (6, 0)]"
    by code_simp
  have c2: "readCursor exInboxRead 0 ''alice'' = Some 7"
    by code_simp
  have m2: "map (\<lambda>m. (mChatId m, mSenderId m, mCreatedAt m)) (messages exInboxRead) =
     [(0, ''bob'', Some 2), (0, ''bob'', Some 3), (0, ''alice'', Some 4), (0, ''bob'', Some 8)]"
    by code_simp
  from l1 have len1: "length (getUserChats exInbox ''alice'') = 2"
    and id1: "cId (getUserChats exInbox ''alice'' ! 1) = 0"
    by (auto simp: map_eq_Cons_conv)
  from l2 have len2: "length (getUserChats exInboxRead ''alice'') = 2"
    and id2: "cId (getUserChats exInboxRead ''alice'' ! 0) = 0"
    by (auto simp: map_eq_Cons_conv)
  have in1: "getUserChats exInbox ''alice'' ! 1 \<in> set (getUserChats exInbox ''alice'')"
    using len1 by simp
  have in2: "getUserChats exInboxRead ''alice'' ! 0 \<in> set (getUserChats exInboxRead ''alice'')"
    using len2 by simp
  from conjunct1 [OF getUserChats_unreadCount [of exInbox "''alice''"]] in1 id1
  have u1: "unreadCount (getUserChats exInbox ''alice'' ! 1) = unreadSpec exInbox 0 ''alice''"
    by auto
  from conjunct1 [OF getUserChats_unreadCount [of exInboxRead "''alice''"]] in2 id2
  have u2: "unreadCount (getUserChats exInboxRead ''alice'' ! 0) =
            unreadSpec exInboxRead 0 ''alice''"
    by auto
  from l1 c1 m1 u1 l2 c2 m2 u2 show ?thesis by blast
qed

text \<open>
  The key that the comparator of \<^verbatim>\<open>getUserChats\<close> reads is the sort time of the
  specification, and an entry carries the \<^verbatim>\<open>createdAt\<close> of its chat row.
\<close>

lemma activityTime_sortTimeSpec: "activityTime e = sortTimeSpec e"
  by (simp add: activityTime_def sortTimeSpec_def Let_def split: option.splits)

lemma userChatEntry_createdAt:
  assumes "userChatEntry s userId (filter (\<lambda>p. pUserId p = userId) (chatParticipants s)) chatId = Some e"
  shows "map_option cCreatedAt (getChat s chatId) = Some (cCreatedAt e)"
proof -
  from userChatEntry_Some(3) [OF assms]
  obtain c where c: "getChat s chatId = Some c"
    and eq: "e\<lparr>unreadCount := 0\<rparr> = chat.extend c (chatWithDetails.fields
            (getChatParticipants s chatId)
            (case getMessages s chatId 1 of [] \<Rightarrow> None | m # _ \<Rightarrow> Some m) 0)"
    by (auto simp: getChatWithDetails_def split: option.splits)
  have "cCreatedAt e = cCreatedAt (e\<lparr>unreadCount := 0\<rparr>)"
    by simp
  also have "\<dots> = cCreatedAt c"
    unfolding eq by (simp add: chat.defs)
  finally show ?thesis using c by simp
qed

lemma getUserChats_entry:
  assumes "p \<in> set (chatParticipants s)" and "pUserId p = userId"
    and "getChat s (pChatId p) \<noteq> None"
  shows "\<exists>e\<in>set (getUserChats s userId). cId e = pChatId p"
proof -
  from assms(3) obtain e
    where e: "userChatEntry s userId (filter (\<lambda>p. pUserId p = userId) (chatParticipants s))
             (pChatId p) = Some e"
    using userChatEntry_None by fastforce
  with assms(1,2) have "e \<in> set (getUserChats s userId)"
    unfolding mem_getUserChats by blast
  with userChatEntry_Some(1) [OF e] show ?thesis by blast
qed

text \<open>
  C9. The list that \<^verbatim>\<open>userChats\<close> returns is sorted descending by the sort time of
  the specification (\<^const>\<open>sortTimeSpec\<close>): the \<^verbatim>\<open>createdAt\<close> of the entry's last
  message when there is one, the chat's own \<^verbatim>\<open>createdAt\<close> otherwise. Every entry is a
  chat in which the user has a Participation, so a chat without one is not in the list,
  and every chat of the store in which the user has one is in the list. The two times
  are those of the store: the \<^verbatim>\<open>createdAt\<close> of an entry is that of its chat row, and
  the last message of an entry is a message of that chat in the Message Log such that
  no message of the chat is later; an entry has none when the chat has no message.
\<close>

theorem getUserChats_sorted:
  "sorted_wrt (\<lambda>a b. sortTimeSpec a \<ge> sortTimeSpec b) (getUserChats s userId) \<and>
   (\<forall>e\<in>set (getUserChats s userId).
      \<exists>p\<in>set (chatParticipants s). pUserId p = userId \<and> pChatId p = cId e) \<and>
   (\<forall>p\<in>set (chatParticipants s). pUserId p = userId \<and> getChat s (pChatId p) \<noteq> None \<longrightarrow>
      (\<exists>e\<in>set (getUserChats s userId). cId e = pChatId p)) \<and>
   (\<forall>e\<in>set (getUserChats s userId).
      map_option cCreatedAt (getChat s (cId e)) = Some (cCreatedAt e)) \<and>
   (\<forall>e\<in>set (getUserChats s userId).
      case lastMessage e of
        None \<Rightarrow> \<forall>m\<in>set (messages s). mChatId m \<noteq> cId e
      | Some lm \<Rightarrow>
          mChatId lm = cId e \<and> message.truncate lm \<in> set (messages s) \<and>
          (\<forall>m\<in>set (messages s). mChatId m = cId e \<longrightarrow>
             (\<forall>t. mCreatedAt lm = Some t \<longrightarrow> (\<exists>t'. mCreatedAt m = Some t' \<and> t' \<le> t))))"
proof (intro conjI ballI impI)
  have "sorted (map (\<lambda>c. - activityTime c) (getUserChats s userId))"
    unfolding getUserChats_sort by (rule sorted_sort_key)
  then show "sorted_wrt (\<lambda>a b. sortTimeSpec a \<ge> sortTimeSpec b) (getUserChats s userId)"
    by (simp add: sorted_map activityTime_sortTimeSpec)
next
  fix e assume "e \<in> set (getUserChats s userId)"
  then obtain p where p: "p \<in> set (chatParticipants s)" "pUserId p = userId"
    and "userChatEntry s userId (filter (\<lambda>p. pUserId p = userId) (chatParticipants s))
             (pChatId p) = Some e"
    unfolding mem_getUserChats by blast
  from userChatEntry_Some(1) [OF this(3)] p
  show "\<exists>p\<in>set (chatParticipants s). pUserId p = userId \<and> pChatId p = cId e"
    by auto
next
  fix p assume "p \<in> set (chatParticipants s)"
    and "pUserId p = userId \<and> getChat s (pChatId p) \<noteq> None"
  then show "\<exists>e\<in>set (getUserChats s userId). cId e = pChatId p"
    using getUserChats_entry by blast
next
  fix e assume "e \<in> set (getUserChats s userId)"
  then obtain p where p: "p \<in> set (chatParticipants s)"
    and en: "userChatEntry s userId (filter (\<lambda>p. pUserId p = userId) (chatParticipants s))
             (pChatId p) = Some e"
    unfolding mem_getUserChats by blast
  from userChatEntry_Some(1) [OF en] userChatEntry_createdAt [OF en]
  show "map_option cCreatedAt (getChat s (cId e)) = Some (cCreatedAt e)"
    by simp
next
  fix e assume "e \<in> set (getUserChats s userId)"
  then obtain p where p: "p \<in> set (chatParticipants s)"
    and en: "userChatEntry s userId (filter (\<lambda>p. pUserId p = userId) (chatParticipants s))
             (pChatId p) = Some e"
    unfolding mem_getUserChats by blast
  from userChatEntry_Some(1) [OF en] have i: "pChatId p = cId e" by simp
  from getMessages_one [of s "cId e"] userChatEntry_lastMessage [OF en] i
  show "case lastMessage e of
        None \<Rightarrow> \<forall>m\<in>set (messages s). mChatId m \<noteq> cId e
      | Some lm \<Rightarrow>
          mChatId lm = cId e \<and> message.truncate lm \<in> set (messages s) \<and>
          (\<forall>m\<in>set (messages s). mChatId m = cId e \<longrightarrow>
             (\<forall>t. mCreatedAt lm = Some t \<longrightarrow> (\<exists>t'. mCreatedAt m = Some t' \<and> t' \<le> t)))"
    by (simp split: list.splits)
qed

theorem getUserChats_sorted_witness:
  "map (\<lambda>p. (pChatId p, pUserId p)) (chatParticipants exTimeline) =
     [(0, ''alice''), (0, ''bob''), (3, ''alice''), (3, ''bob''), (6, ''alice'')] \<and>
   map (\<lambda>c. (cId c, cCreatedAt c, cUpdatedAt c)) (chats exTimeline) =
     [(0, Some 1, Some 10), (3, Some 5, Some 20), (6, Some 7, Some 7)] \<and>
   map (\<lambda>m. (mChatId m, mCreatedAt m)) (messages exTimeline) = [(0, Some 10)] \<and>
   map (\<lambda>e. (cId e, map_option mCreatedAt (lastMessage e), cCreatedAt e, sortTimeSpec e))
     (getUserChats exTimeline ''alice'') =
     [(0, Some (Some 10), Some 1, 10), (6, None, Some 7, 7), (3, None, Some 5, 5)] \<and>
   sortTimeSpec (getUserChats exTimeline ''alice'' ! 1) \<le>
     sortTimeSpec (getUserChats exTimeline ''alice'' ! 0) \<and>
   sortTimeSpec (getUserChats exTimeline ''alice'' ! 2) \<le>
     sortTimeSpec (getUserChats exTimeline ''alice'' ! 1)"
proof -
  have ps: "map (\<lambda>p. (pChatId p, pUserId p)) (chatParticipants exTimeline) =
     [(0, ''alice''), (0, ''bob''), (3, ''alice''), (3, ''bob''), (6, ''alice'')]"
    by code_simp
  have cs: "map (\<lambda>c. (cId c, cCreatedAt c, cUpdatedAt c)) (chats exTimeline) =
     [(0, Some 1, Some 10), (3, Some 5, Some 20), (6, Some 7, Some 7)]"
    by code_simp
  have ms: "map (\<lambda>m. (mChatId m, mCreatedAt m)) (messages exTimeline) = [(0, Some 10)]"
    by code_simp
  have l: "map (\<lambda>e. (cId e, map_option mCreatedAt (lastMessage e), cCreatedAt e, sortTimeSpec e))
     (getUserChats exTimeline ''alice'') =
     [(0, Some (Some 10), Some 1, 10), (6, None, Some 7, 7), (3, None, Some 5, 5)]"
    by code_simp
  then have len: "length (getUserChats exTimeline ''alice'') = 3"
    by (auto simp: map_eq_Cons_conv)
  from conjunct1 [OF getUserChats_sorted [of exTimeline "''alice''"]] len
  have "sortTimeSpec (getUserChats exTimeline ''alice'' ! 1) \<le>
          sortTimeSpec (getUserChats exTimeline ''alice'' ! 0) \<and>
        sortTimeSpec (getUserChats exTimeline ''alice'' ! 2) \<le>
          sortTimeSpec (getUserChats exTimeline ''alice'' ! 1)"
    by (simp add: sorted_wrt_iff_nth_less)
  with ps cs ms l show ?thesis by blast
qed

end
